theory Spec2Isabelle
  imports Main
begin

section \<open>JavaScript values\<close>

text \<open>
  Response bodies are \<^verbatim>\<open>unknown\<close> to the client: whatever the JSON parser produced.
  \<open>JUndefined\<close> is the value of a property that is not there and of a field that was
  never assigned. Numbers are the integers JavaScript represents exactly and prints in
  decimal (status codes, timestamps): the client only tests a number for truthiness and
  prints it.
\<close>

datatype jsval =
    JUndefined
  | JNull
  | JBool bool
  | JNum int
  | JStr string
  | JArr "jsval list"
  | JObj "(string \<times> jsval) list"

text \<open>A \<^verbatim>\<open>Date\<close>: its time value in milliseconds, or the invalid date (time value NaN).\<close>

datatype date = Date int | InvalidDate

fun getTime :: "date \<Rightarrow> int option" where
  "getTime (Date t) = Some t"
| "getTime InvalidDate = None"

text \<open>\<^verbatim>\<open>!!v\<close>\<close>

fun truthy :: "jsval \<Rightarrow> bool" where
  "truthy JUndefined = False"
| "truthy JNull = False"
| "truthy (JBool b) = b"
| "truthy (JNum n) = (n \<noteq> 0)"
| "truthy (JStr s) = (s \<noteq> [])"
| "truthy (JArr xs) = True"
| "truthy (JObj kvs) = True"

fun nullish :: "jsval \<Rightarrow> bool" where
  "nullish JUndefined = True"
| "nullish JNull = True"
| "nullish v = False"

text \<open>\<^verbatim>\<open>a ?? b\<close>\<close>

definition nullish_coalesce :: "jsval \<Rightarrow> jsval \<Rightarrow> jsval" where
  "nullish_coalesce a b = (if nullish a then b else a)"

text \<open>
  \<^verbatim>\<open>v[k]\<close> for a value that is not nullish and a key that no prototype defines
  (\<^verbatim>\<open>access_token\<close>, \<^verbatim>\<open>expires_at\<close>, \<^verbatim>\<open>message\<close>): an object's own property,
  \<^verbatim>\<open>undefined\<close> on anything else.
\<close>

fun own_prop :: "jsval \<Rightarrow> string \<Rightarrow> jsval" where
  "own_prop (JObj kvs) k = (case map_of kvs k of None \<Rightarrow> JUndefined | Some v \<Rightarrow> v)"
| "own_prop v k = JUndefined"

text \<open>\<^verbatim>\<open>v?.k\<close>\<close>

definition opt_prop :: "jsval \<Rightarrow> string \<Rightarrow> jsval" where
  "opt_prop v k = (if nullish v then JUndefined else own_prop v k)"

text \<open>Decimal printing of a number, as in a template literal.\<close>

fun nat_digits :: "nat \<Rightarrow> string" where
  "nat_digits n =
     (if n < 10 then [''0123456789'' ! n]
      else nat_digits (n div 10) @ [''0123456789'' ! (n mod 10)])"

definition int_digits :: "int \<Rightarrow> string" where
  "int_digits i = (if i < 0 then CHR ''-'' # nat_digits (nat (- i)) else nat_digits (nat i))"

fun join_comma :: "string list \<Rightarrow> string" where
  "join_comma [] = []"
| "join_comma [s] = s"
| "join_comma (s # t # ss) = s @ '','' @ join_comma (t # ss)"

text \<open>
  \<^verbatim>\<open>String(v)\<close>, which a template literal and the \<^verbatim>\<open>Error\<close> constructor apply.
  The conversion of an object that has an own property \<^verbatim>\<open>toString\<close> throws (a parsed
  value is never callable), and so does that of an array that holds such an object;
  \<open>convertible\<close> tells the values whose conversion returns, and \<open>ToString\<close> is the string
  it returns for them.
\<close>

fun ToString :: "jsval \<Rightarrow> string" where
  "ToString JUndefined = ''undefined''"
| "ToString JNull = ''null''"
| "ToString (JBool b) = (if b then ''true'' else ''false'')"
| "ToString (JNum n) = int_digits n"
| "ToString (JStr s) = s"
| "ToString (JArr xs) = join_comma (map (\<lambda>x. if nullish x then [] else ToString x) xs)"
| "ToString (JObj kvs) = ''[object Object]''"


section \<open>Responses, errors and the client\<close>

text \<open>What a generated request function of the fetch client resolves to.\<close>

record response =
  status :: int
  data :: jsval

text \<open>
  A fetch \<^verbatim>\<open>Response\<close> as the generated runtime of the other client attaches it to a
  \<^verbatim>\<open>ResponseError\<close>: \<open>json_body\<close> is \<open>None\<close> when \<^verbatim>\<open>response.json()\<close> rejects.
\<close>

record fetch_response =
  resp_status :: int
  statusText :: string
  json_body :: "jsval option"

datatype js_error =
    VouchsafeApiError (statusCode: int) (responseBody: jsval) (message: string)
  | ResponseError fetch_response
  | TypeError string
  | OtherError string

record authenticate_input =
  client_id :: string
  client_secret :: string

record request_init =
  Authorization :: string

datatype endpoint_call =
    GetVerification jsval
  | ListVerifications jsval
  | RequestVerification jsval
  | PerformSmartLookup jsval
  | SearchPostcode jsval
  | ListFlows
  | GetFlow jsval
  | GetArtefact jsval
  | VerifyEvisa jsval
  | VerifySupportingDocument jsval

text \<open>The calls that leave the process, in the order they are made.\<close>

datatype event =
    AuthenticateCall authenticate_input
  | EndpointCall request_init


text \<open>
  A \<^verbatim>\<open>VouchsafeClient\<close> together with the world it runs in: \<open>options\<close>, \<open>token\<close> and
  \<open>tokenExpiry\<close> are the fields of the class, \<open>world\<close> is everything outside the process
  (the server, the clock), \<open>calls\<close> records the requests issued so far.
\<close>

record 'w client =
  options :: authenticate_input
  token :: jsval
  tokenExpiry :: "date option"
  world :: 'w
  calls :: "event list"

text \<open>
  The collaborators the client imports: the clock behind \<^verbatim>\<open>new Date()\<close>, the
  \<^verbatim>\<open>Date\<close> constructor on a value, and the generated request functions. A request
  function either resolves to a response or rejects. \<open>authenticate\<close> and \<open>endpoint\<close> are
  the functions of the fetch client, which take the request options as an argument.
  \<open>authenticationApi_authenticate\<close> and \<open>api\<close> are the methods of the generated API classes
  of the other client: they resolve to the deserialised body and reject with a
  \<^verbatim>\<open>ResponseError\<close> on a status outside 2xx; the API classes are configured with the
  client's own \<^verbatim>\<open>getAccessToken\<close>, so a method of \<open>api\<close> may read and write the client.
\<close>

record 'w env =
  clock :: "'w \<Rightarrow> int"
  new_Date :: "jsval \<Rightarrow> date"
  authenticate :: "authenticate_input \<Rightarrow> 'w \<Rightarrow> (js_error + response) \<times> 'w"
  endpoint :: "endpoint_call \<Rightarrow> request_init \<Rightarrow> 'w \<Rightarrow> (js_error + response) \<times> 'w"
  authenticationApi_authenticate :: "authenticate_input \<Rightarrow> 'w \<Rightarrow> (js_error + jsval) \<times> 'w"
  api :: "endpoint_call \<Rightarrow> 'w client \<Rightarrow> (js_error + jsval) \<times> 'w client"

section \<open>The fetch client\<close>

definition bufferMs :: int where
  "bufferMs = 5 * 60 * 1000"

text \<open>The condition under which \<^verbatim>\<open>getAccessToken\<close> returns the cached token.\<close>

definition token_usable :: "'w env \<Rightarrow> 'w client \<Rightarrow> bool" where
  "token_usable E s =
     (truthy (token s) \<and>
      (case tokenExpiry s of
         None \<Rightarrow> False
       | Some d \<Rightarrow> (case getTime d of
                     None \<Rightarrow> False
                   | Some t \<Rightarrow> clock E (world s) < t - bufferMs)))"

definition authBody :: "'w client \<Rightarrow> authenticate_input" where
  "authBody s = \<lparr>client_id = client_id (options s), client_secret = client_secret (options s)\<rparr>"

text \<open>
  \<^verbatim>\<open>getAccessToken\<close>. Each \<^verbatim>\<open>throw\<close> is an \<open>Inl\<close> result, and the rejection of
  \<^verbatim>\<open>authenticate\<close> is passed on. The request is appended to \<open>calls\<close> when it is made.
  Reading \<^verbatim>\<open>response.data.access_token\<close> from a body that is \<^verbatim>\<open>null\<close> is a
  \<^verbatim>\<open>TypeError\<close>. The two assignments at the end are the only writes to the fields.
\<close>

definition getAccessToken :: "'w env \<Rightarrow> 'w client \<Rightarrow> (js_error + jsval) \<times> 'w client" where
  "getAccessToken E s =
     (if token_usable E s then (Inr (token s), s)
      else
        (case authenticate E (authBody s) (world s) of (r, w') \<Rightarrow>
           (let s1 = s\<lparr>world := w', calls := calls s @ [AuthenticateCall (authBody s)]\<rparr> in
            case r of
              Inl err \<Rightarrow> (Inl err, s1)
            | Inr response \<Rightarrow>
                if status response \<noteq> 201 then
                  (Inl (VouchsafeApiError (status response) (data response)
                          ''Authentication failed''), s1)
                else if nullish (data response) then
                  (Inl (TypeError ''Cannot read properties of null or undefined''), s1)
                else if \<not> truthy (own_prop (data response) ''access_token'')
                        \<or> \<not> truthy (own_prop (data response) ''expires_at'') then
                  (Inl (VouchsafeApiError 201 (data response)
                          ''Authentication response missing token or expiry''), s1)
                else
                  (Inr (own_prop (data response) ''access_token''),
                   s1\<lparr>token := own_prop (data response) ''access_token'',
                      tokenExpiry := Some (new_Date E (own_prop (data response) ''expires_at''))\<rparr>))))"

definition authHeaders :: "'w env \<Rightarrow> 'w client \<Rightarrow> (js_error + request_init) \<times> 'w client" where
  "authHeaders E s =
     (case getAccessToken E s of
        (Inl err, s1) \<Rightarrow> (Inl err, s1)
      | (Inr tok, s1) \<Rightarrow> (Inr \<lparr>Authorization = ''Bearer '' @ ToString tok\<rparr>, s1))"

text \<open>The error \<^verbatim>\<open>attempt\<close> throws for a response that is neither 200 nor 201.\<close>

definition request_failed :: "response \<Rightarrow> js_error" where
  "request_failed r =
     VouchsafeApiError (status r) (data r)
       (ToString (nullish_coalesce (opt_prop (data r) ''message'')
                    (JStr (''Request failed with status '' @ int_digits (status r)))))"

text \<open>
  \<^verbatim>\<open>attempt\<close>, the closure inside \<^verbatim>\<open>withErrorHandling\<close>: one pass of headers, call and
  status check. \<open>fn\<close> is the wrapped request function, acting on the world.
\<close>

definition attempt ::
  "'w env \<Rightarrow> (request_init \<Rightarrow> 'w \<Rightarrow> (js_error + response) \<times> 'w) \<Rightarrow> 'w client
     \<Rightarrow> (js_error + jsval) \<times> 'w client" where
  "attempt E fn s =
     (case authHeaders E s of
        (Inl err, s1) \<Rightarrow> (Inl err, s1)
      | (Inr opts, s1) \<Rightarrow>
          (case fn opts (world s1) of (r, w') \<Rightarrow>
             (let s2 = s1\<lparr>world := w', calls := calls s1 @ [EndpointCall opts]\<rparr> in
              case r of
                Inl err \<Rightarrow> (Inl err, s2)
              | Inr response \<Rightarrow>
                  if status response = 200 \<or> status response = 201 then (Inr (data response), s2)
                  else (Inl (request_failed response), s2))))"

fun is_401 :: "js_error \<Rightarrow> bool" where
  "is_401 (VouchsafeApiError sc body msg) = (sc = 401)"
| "is_401 err = False"

text \<open>
  \<^verbatim>\<open>withErrorHandling\<close>: the \<^verbatim>\<open>catch\<close> clears both fields and runs \<open>attempt\<close> once more
  when the error is a \<^verbatim>\<open>VouchsafeApiError\<close> with status 401, and rethrows anything else.
\<close>

definition withErrorHandling ::
  "'w env \<Rightarrow> (request_init \<Rightarrow> 'w \<Rightarrow> (js_error + response) \<times> 'w) \<Rightarrow> 'w client
     \<Rightarrow> (js_error + jsval) \<times> 'w client" where
  "withErrorHandling E fn s =
     (case attempt E fn s of
        (Inr v, s1) \<Rightarrow> (Inr v, s1)
      | (Inl err, s1) \<Rightarrow>
          if is_401 err then attempt E fn (s1\<lparr>token := JUndefined, tokenExpiry := None\<rparr>)
          else (Inl err, s1))"


subsection \<open>Public methods\<close>

definition getVerification :: "'w env \<Rightarrow> jsval \<Rightarrow> 'w client \<Rightarrow> (js_error + jsval) \<times> 'w client" where
  "getVerification E ident = withErrorHandling E (\<lambda>opts. endpoint E (GetVerification ident) opts)"

definition listVerifications :: "'w env \<Rightarrow> jsval \<Rightarrow> 'w client \<Rightarrow> (js_error + jsval) \<times> 'w client" where
  "listVerifications E params = withErrorHandling E (\<lambda>opts. endpoint E (ListVerifications params) opts)"

definition requestVerification :: "'w env \<Rightarrow> jsval \<Rightarrow> 'w client \<Rightarrow> (js_error + jsval) \<times> 'w client" where
  "requestVerification E input = withErrorHandling E (\<lambda>opts. endpoint E (RequestVerification input) opts)"

definition performSmartLookup :: "'w env \<Rightarrow> jsval \<Rightarrow> 'w client \<Rightarrow> (js_error + jsval) \<times> 'w client" where
  "performSmartLookup E input = withErrorHandling E (\<lambda>opts. endpoint E (PerformSmartLookup input) opts)"

definition searchPostcode :: "'w env \<Rightarrow> jsval \<Rightarrow> 'w client \<Rightarrow> (js_error + jsval) \<times> 'w client" where
  "searchPostcode E postcode =
     withErrorHandling E (\<lambda>opts. endpoint E (SearchPostcode (JObj [(''postcode'', postcode)])) opts)"

definition listFlows :: "'w env \<Rightarrow> 'w client \<Rightarrow> (js_error + jsval) \<times> 'w client" where
  "listFlows E = withErrorHandling E (\<lambda>opts. endpoint E ListFlows opts)"

definition getFlow :: "'w env \<Rightarrow> jsval \<Rightarrow> 'w client \<Rightarrow> (js_error + jsval) \<times> 'w client" where
  "getFlow E ident = withErrorHandling E (\<lambda>opts. endpoint E (GetFlow ident) opts)"

definition getArtefact :: "'w env \<Rightarrow> jsval \<Rightarrow> 'w client \<Rightarrow> (js_error + jsval) \<times> 'w client" where
  "getArtefact E artefact_key = withErrorHandling E (\<lambda>opts. endpoint E (GetArtefact artefact_key) opts)"

definition verifyEvisa :: "'w env \<Rightarrow> jsval \<Rightarrow> 'w client \<Rightarrow> (js_error + jsval) \<times> 'w client" where
  "verifyEvisa E input = withErrorHandling E (\<lambda>opts. endpoint E (VerifyEvisa input) opts)"

definition verifySupportingDocument :: "'w env \<Rightarrow> jsval \<Rightarrow> 'w client \<Rightarrow> (js_error + jsval) \<times> 'w client" where
  "verifySupportingDocument E input =
     withErrorHandling E (\<lambda>opts. endpoint E (VerifySupportingDocument input) opts)"

section \<open>The client over the generated API classes\<close>

text \<open>
  The second client of the repository has the same two fields and the same private
  methods, written over API classes that throw a \<^verbatim>\<open>ResponseError\<close> instead of
  returning a status. Its definitions carry the suffix \<open>_gen\<close>.
\<close>

text \<open>
  \<^verbatim>\<open>getAccessToken\<close>: the same test on the cached token; the authenticate method rejects
  on a failure status, and what it resolves to is stored as it is.
\<close>

definition getAccessToken_gen :: "'w env \<Rightarrow> 'w client \<Rightarrow> (js_error + jsval) \<times> 'w client" where
  "getAccessToken_gen E s =
     (if token_usable E s then (Inr (token s), s)
      else
        (case authenticationApi_authenticate E (authBody s) (world s) of (r, w') \<Rightarrow>
           (let s1 = s\<lparr>world := w', calls := calls s @ [AuthenticateCall (authBody s)]\<rparr> in
            case r of
              Inl err \<Rightarrow> (Inl err, s1)
            | Inr response \<Rightarrow>
                if nullish response then
                  (Inl (TypeError ''Cannot read properties of null or undefined''), s1)
                else
                  (Inr (own_prop response ''access_token''),
                   s1\<lparr>token := own_prop response ''access_token'',
                      tokenExpiry := Some (new_Date E (own_prop response ''expires_at''))\<rparr>))))"

text \<open>
  \<^verbatim>\<open>withErrorHandling\<close>: \<open>fn\<close> is the thunk, which runs on the client. On a
  \<^verbatim>\<open>ResponseError\<close> with status 401 the fields are cleared, a token is acquired and the
  thunk is run again; on any other \<^verbatim>\<open>ResponseError\<close> the body is read, with \<^verbatim>\<open>{}\<close> in its
  place when reading fails, and a \<^verbatim>\<open>VouchsafeApiError\<close> is thrown.
\<close>

definition withErrorHandling_gen ::
  "'w env \<Rightarrow> ('w client \<Rightarrow> (js_error + jsval) \<times> 'w client) \<Rightarrow> 'w client
     \<Rightarrow> (js_error + jsval) \<times> 'w client" where
  "withErrorHandling_gen E fn s =
     (case fn s of
        (Inr v, s1) \<Rightarrow> (Inr v, s1)
      | (Inl err, s1) \<Rightarrow>
          (case err of
             ResponseError resp \<Rightarrow>
               if resp_status resp = 401 then
                 (case getAccessToken_gen E (s1\<lparr>token := JUndefined, tokenExpiry := None\<rparr>) of
                    (Inl err', s2) \<Rightarrow> (Inl err', s2)
                  | (Inr tok, s2) \<Rightarrow> fn s2)
               else
                 (let body = (case json_body resp of None \<Rightarrow> JObj [] | Some b \<Rightarrow> b);
                      message = nullish_coalesce (opt_prop body ''message'') (JStr (statusText resp))
                  in (Inl (VouchsafeApiError (resp_status resp) body (ToString message)), s1))
           | _ \<Rightarrow> (Inl err, s1)))"

subsection \<open>Public methods\<close>


definition listVerifications_gen :: "'w env \<Rightarrow> jsval \<Rightarrow> 'w client \<Rightarrow> (js_error + jsval) \<times> 'w client" where
  "listVerifications_gen E wanted =
     withErrorHandling_gen E (api E (ListVerifications (JObj [(''status'', wanted)])))"

definition requestVerification_gen :: "'w env \<Rightarrow> jsval \<Rightarrow> 'w client \<Rightarrow> (js_error + jsval) \<times> 'w client" where
  "requestVerification_gen E input =
     withErrorHandling_gen E (api E (RequestVerification (JObj [(''requestVerificationInput'', input)])))"

definition performSmartLookup_gen :: "'w env \<Rightarrow> jsval \<Rightarrow> 'w client \<Rightarrow> (js_error + jsval) \<times> 'w client" where
  "performSmartLookup_gen E input =
     withErrorHandling_gen E (api E (PerformSmartLookup (JObj [(''smartLookupInput'', input)])))"

definition searchPostcode_gen :: "'w env \<Rightarrow> jsval \<Rightarrow> 'w client \<Rightarrow> (js_error + jsval) \<times> 'w client" where
  "searchPostcode_gen E postcode =
     withErrorHandling_gen E (api E (SearchPostcode (JObj [(''postcode'', postcode)])))"

definition listFlows_gen :: "'w env \<Rightarrow> 'w client \<Rightarrow> (js_error + jsval) \<times> 'w client" where
  "listFlows_gen E =
     withErrorHandling_gen E (withErrorHandling_gen E (api E ListFlows))"

definition getFlow_gen :: "'w env \<Rightarrow> jsval \<Rightarrow> 'w client \<Rightarrow> (js_error + jsval) \<times> 'w client" where
  "getFlow_gen E ident =
     withErrorHandling_gen E (withErrorHandling_gen E (api E (GetFlow (JObj [(''id'', ident)]))))"

definition getArtefact_gen :: "'w env \<Rightarrow> jsval \<Rightarrow> 'w client \<Rightarrow> (js_error + jsval) \<times> 'w client" where
  "getArtefact_gen E artefact_key =
     withErrorHandling_gen E (api E (GetArtefact (JObj [(''artefactKey'', artefact_key)])))"

definition verifyEvisa_gen :: "'w env \<Rightarrow> jsval \<Rightarrow> 'w client \<Rightarrow> (js_error + jsval) \<times> 'w client" where
  "verifyEvisa_gen E input =
     withErrorHandling_gen E (api E (VerifyEvisa (JObj [(''evisaVerificationInput'', input)])))"

definition verifySupportingDocument_gen ::
  "'w env \<Rightarrow> jsval \<Rightarrow> jsval \<Rightarrow> jsval \<Rightarrow> 'w client \<Rightarrow> (js_error + jsval) \<times> 'w client" where
  "verifySupportingDocument_gen E document sub_type minimum_document_length =
     withErrorHandling_gen E
       (api E (VerifySupportingDocument
          (JObj [(''document'', document),
                 (''subType'', sub_type),
                 (''minimumDocumentLength'',
                    (if nullish minimum_document_length then JUndefined
                     else JStr (ToString minimum_document_length)))])))"

section \<open>A scripted environment\<close>

text \<open>
  A world that runs the client on concrete inputs: a clock that stands still and, for
  each kind of request, the list of replies the server will give, in order. A request
  made when its list is empty rejects as a failed fetch does. \<^verbatim>\<open>new Date(n)\<close> on a
  number is the date with time value \<open>n\<close>; the scripts give expiry as a number, and every
  other value is taken to the invalid date, which is what \<^verbatim>\<open>new Date(undefined)\<close> is.
\<close>

record script =
  time :: int
  auth_replies :: "(js_error + response) list"
  replies :: "(js_error + response) list"
  api_auth_replies :: "(js_error + jsval) list"
  api_replies :: "(js_error + jsval) list"

definition script_Date :: "jsval \<Rightarrow> date" where
  "script_Date v = (case v of JNum n \<Rightarrow> Date n | _ \<Rightarrow> InvalidDate)"

definition script_authenticate :: "authenticate_input \<Rightarrow> script \<Rightarrow> (js_error + response) \<times> script" where
  "script_authenticate b w =
     (case auth_replies w of
        [] \<Rightarrow> (Inl (OtherError ''fetch failed''), w)
      | r # rs \<Rightarrow> (r, w\<lparr>auth_replies := rs\<rparr>))"

definition script_endpoint ::
  "endpoint_call \<Rightarrow> request_init \<Rightarrow> script \<Rightarrow> (js_error + response) \<times> script" where
  "script_endpoint c opts w =
     (case replies w of
        [] \<Rightarrow> (Inl (OtherError ''fetch failed''), w)
      | r # rs \<Rightarrow> (r, w\<lparr>replies := rs\<rparr>))"

definition script_api_authenticate :: "authenticate_input \<Rightarrow> script \<Rightarrow> (js_error + jsval) \<times> script" where
  "script_api_authenticate b w =
     (case api_auth_replies w of
        [] \<Rightarrow> (Inl (OtherError ''fetch failed''), w)
      | r # rs \<Rightarrow> (r, w\<lparr>api_auth_replies := rs\<rparr>))"

text \<open>
  The scripted API method sends the token the client holds and records the request.
\<close>

definition script_api :: "endpoint_call \<Rightarrow> script client \<Rightarrow> (js_error + jsval) \<times> script client" where
  "script_api c s =
     (case api_replies (world s) of
        [] \<Rightarrow> (Inl (OtherError ''fetch failed''), s)
      | r # rs \<Rightarrow>
          (r, s\<lparr>world := (world s)\<lparr>api_replies := rs\<rparr>,
                calls := calls s @ [EndpointCall \<lparr>Authorization = ''Bearer '' @ ToString (token s)\<rparr>]\<rparr>))"

definition scripted :: "script env" where
  "scripted =
     \<lparr>clock = time,
      new_Date = script_Date,
      authenticate = script_authenticate,
      endpoint = script_endpoint,
      authenticationApi_authenticate = script_api_authenticate,
      api = script_api\<rparr>"

definition new_client :: "string \<Rightarrow> string \<Rightarrow> 'w \<Rightarrow> 'w client" where
  "new_client cid secret w =
     \<lparr>options = \<lparr>client_id = cid, client_secret = secret\<rparr>,
      token = JUndefined, tokenExpiry = None, world = w, calls = []\<rparr>"

section \<open>Concrete clients\<close>

text \<open>The inputs on which the theorems below are run.\<close>

definition quiet :: "int \<Rightarrow> script" where
  "quiet t = \<lparr>time = t, auth_replies = [], replies = [], api_auth_replies = [], api_replies = []\<rparr>"

definition token_reply :: "string \<Rightarrow> int \<Rightarrow> jsval" where
  "token_reply tok expiry = JObj [(''access_token'', JStr tok), (''expires_at'', JNum expiry)]"

definition cached_client :: "script client" where
  "cached_client =
     (new_client ''id'' ''secret'' (quiet 0))\<lparr>token := JStr ''abc'', tokenExpiry := Some (Date 3600000)\<rparr>"


definition fresh_client :: "script client" where
  "fresh_client =
     new_client ''id'' ''secret''
       ((quiet 0)\<lparr>auth_replies := [Inr \<lparr>status = 201, data = token_reply ''abc'' 3600000\<rparr>]\<rparr>)"

definition stale_client :: "script client" where
  "stale_client =
     (new_client ''id'' ''secret''
        ((quiet 2000)\<lparr>auth_replies := [Inr \<lparr>status = 500, data = JObj [(''message'', JStr ''down'')]\<rparr>]\<rparr>))
     \<lparr>token := JStr ''old'', tokenExpiry := Some (Date 1000)\<rparr>"

definition partial_client :: "script client" where
  "partial_client =
     new_client ''id'' ''secret''
       ((quiet 0)\<lparr>api_auth_replies := [Inr (JObj [(''access_token'', JStr ''abc'')])]\<rparr>)"

definition empty_token_client :: "script client" where
  "empty_token_client =
     new_client ''id'' ''secret''
       ((quiet 0)\<lparr>auth_replies :=
           [Inr \<lparr>status = 201, data = JObj [(''access_token'', JStr ''''), (''expires_at'', JNum 3600000)]\<rparr>],
         replies := [Inr \<lparr>status = 200, data = JStr ''ok''\<rparr>]\<rparr>)"

definition no_expiry_client :: "script client" where
  "no_expiry_client =
     new_client ''id'' ''secret''
       ((quiet 0)\<lparr>auth_replies := [Inr \<lparr>status = 201, data = JObj [(''access_token'', JStr ''abc'')]\<rparr>]\<rparr>)"

definition with_token :: "script \<Rightarrow> script client" where
  "with_token w =
     (new_client ''id'' ''secret'' w)\<lparr>token := JStr ''abc'', tokenExpiry := Some (Date 3600000)\<rparr>"






definition short_lived_client :: "script client" where
  "short_lived_client =
     new_client ''id'' ''secret''
       ((quiet 1000000)\<lparr>auth_replies := [Inr \<lparr>status = 201, data = token_reply ''abc'' 1000000\<rparr>]\<rparr>)"


definition flaky_flows_client :: "script client" where
  "flaky_flows_client =
     with_token
       ((quiet 0)\<lparr>api_auth_replies := [Inr (token_reply ''def'' 7200000),
                                       Inr (token_reply ''ghi'' 7200000)],
                  api_replies := [Inl (ResponseError \<lparr>resp_status = 401, statusText = ''Unauthorized'',
                                                      json_body = None\<rparr>),
                                  Inl (ResponseError \<lparr>resp_status = 401, statusText = ''Unauthorized'',
                                                      json_body = None\<rparr>),
                                  Inr (JArr [])]\<rparr>)"

definition gen_fresh_client :: "script client" where
  "gen_fresh_client =
     new_client ''id'' ''secret''
       ((quiet 0)\<lparr>api_auth_replies := [Inr (token_reply ''abc'' 3600000)]\<rparr>)"





section \<open>Properties\<close>

subsection \<open>The cached token\<close>

lemma authBody_options: "authBody s = options s"
  by (simp add: authBody_def)

lemma token_usable_iff:
  "token_usable E s \<longleftrightarrow>
     truthy (token s) \<and> (\<exists>t. tokenExpiry s = Some (Date t) \<and> clock E (world s) < t - 5 * 60 * 1000)"
  by (auto simp: token_usable_def bufferMs_def split: option.splits date.splits elim: getTime.elims)

lemma getAccessToken_usable:
  "token_usable E s \<Longrightarrow> getAccessToken E s = (Inr (token s), s)"
  by (simp add: getAccessToken_def)

lemma getAccessToken_calls:
  "\<not> token_usable E s \<Longrightarrow>
     calls (snd (getAccessToken E s)) = calls s @ [AuthenticateCall (options s)]"
  by (simp add: getAccessToken_def authBody_options Let_def split: prod.splits sum.splits)

lemma truthy_prop_not_nullish: "truthy (own_prop v k) \<Longrightarrow> \<not> nullish v"
  by (cases v) auto

lemma getAccessToken_stored:
  assumes "\<not> token_usable E s"
    and "authenticate E (options s) (world s) = (Inr r, w')"
    and "status r = 201"
    and "truthy (own_prop (data r) ''access_token'')"
    and "truthy (own_prop (data r) ''expires_at'')"
  shows "getAccessToken E s =
           (Inr (own_prop (data r) ''access_token''),
            s\<lparr>world := w', calls := calls s @ [AuthenticateCall (options s)],
              token := own_prop (data r) ''access_token'',
              tokenExpiry := Some (new_Date E (own_prop (data r) ''expires_at''))\<rparr>)"
  using assms truthy_prop_not_nullish [OF assms(4)]
  by (simp add: getAccessToken_def authBody_options Let_def)





lemmas script_defs = scripted_def script_Date_def script_authenticate_def script_endpoint_def
  script_api_authenticate_def script_api_def new_client_def quiet_def token_reply_def


subsection \<open>Refreshing the token\<close>

lemma refresh_required:
  "token s = JUndefined \<or> (\<exists>t. tokenExpiry s = Some (Date t) \<and> t \<le> clock E (world s) + 5 * 60 * 1000)
     \<Longrightarrow> \<not> token_usable E s"
  by (auto simp: token_usable_iff)

lemma getAccessToken_failed:
  assumes "\<not> token_usable E s"
    and "authenticate E (options s) (world s) = (Inr r, w')"
    and "status r \<noteq> 201"
  shows "getAccessToken E s =
           (Inl (VouchsafeApiError (status r) (data r) ''Authentication failed''),
            s\<lparr>world := w', calls := calls s @ [AuthenticateCall (options s)]\<rparr>)"
  using assms by (simp add: getAccessToken_def authBody_options Let_def)

lemma getAccessToken_missing:
  assumes "\<not> token_usable E s"
    and "authenticate E (options s) (world s) = (Inr r, w')"
    and "status r = 201"
    and "\<not> nullish (data r)"
    and "\<not> truthy (own_prop (data r) ''access_token'') \<or> \<not> truthy (own_prop (data r) ''expires_at'')"
  shows "getAccessToken E s =
           (Inl (VouchsafeApiError 201 (data r) ''Authentication response missing token or expiry''),
            s\<lparr>world := w', calls := calls s @ [AuthenticateCall (options s)]\<rparr>)"
  using assms by (simp add: getAccessToken_def authBody_options Let_def)

lemma getAccessToken_gen_rejected:
  assumes "\<not> token_usable E s"
    and "authenticationApi_authenticate E (options s) (world s) = (Inl err, w')"
  shows "getAccessToken_gen E s =
           (Inl err, s\<lparr>world := w', calls := calls s @ [AuthenticateCall (options s)]\<rparr>)"
  using assms by (simp add: getAccessToken_gen_def authBody_options Let_def)

lemma getAccessToken_gen_stored:
  assumes "\<not> token_usable E s"
    and "authenticationApi_authenticate E (options s) (world s) = (Inr body, w')"
    and "\<not> nullish body"
  shows "getAccessToken_gen E s =
           (Inr (own_prop body ''access_token''),
            s\<lparr>world := w', calls := calls s @ [AuthenticateCall (options s)],
              token := own_prop body ''access_token'',
              tokenExpiry := Some (new_Date E (own_prop body ''expires_at''))\<rparr>)"
  using assms by (simp add: getAccessToken_gen_def authBody_options Let_def)

text \<open>
  C4. A client with no token, or with a token whose expiry is at most five minutes
  after the current time, sends exactly one authenticate request, with the stored
  credentials. When the reply is a 201 that carries an \<^verbatim>\<open>access_token\<close> and an
  \<^verbatim>\<open>expires_at\<close>, both are stored on the client (the expiry as a \<^verbatim>\<open>Date\<close>) and
  the new token is returned.
\<close>

theorem refresh_stores_token:
  fixes s :: "'w client"
  assumes "token s = JUndefined \<or>
           (\<exists>t. tokenExpiry s = Some (Date t) \<and> t \<le> clock E (world s) + 5 * 60 * 1000)"
  shows "calls (snd (getAccessToken E s)) = calls s @ [AuthenticateCall (options s)] \<and>
         (\<forall>r w'. authenticate E (options s) (world s) = (Inr r, w') \<and> status r = 201 \<and>
                  truthy (own_prop (data r) ''access_token'') \<and>
                  truthy (own_prop (data r) ''expires_at'')
            \<longrightarrow> getAccessToken E s =
                  (Inr (own_prop (data r) ''access_token''),
                   s\<lparr>world := w', calls := calls s @ [AuthenticateCall (options s)],
                     token := own_prop (data r) ''access_token'',
                     tokenExpiry := Some (new_Date E (own_prop (data r) ''expires_at''))\<rparr>))"
proof -
  have n: "\<not> token_usable E s"
    using assms by (rule refresh_required)
  show ?thesis
    using getAccessToken_calls [OF n] getAccessToken_stored [OF n] by blast
qed

theorem refresh_stores_token_witness:
  "getAccessToken scripted fresh_client =
     (Inr (JStr ''abc''),
      fresh_client\<lparr>world := quiet 0,
                   calls := [AuthenticateCall \<lparr>client_id = ''id'', client_secret = ''secret''\<rparr>],
                   token := JStr ''abc'', tokenExpiry := Some (Date 3600000)\<rparr>)"
proof -
  have a: "token fresh_client = JUndefined \<or>
           (\<exists>t. tokenExpiry fresh_client = Some (Date t) \<and>
                t \<le> clock scripted (world fresh_client) + 5 * 60 * 1000)"
    by (simp add: fresh_client_def script_defs)
  have b: "authenticate scripted (options fresh_client) (world fresh_client) =
             (Inr \<lparr>status = 201, data = token_reply ''abc'' 3600000\<rparr>, quiet 0)"
    by (simp add: fresh_client_def script_defs)
  have c: "truthy (own_prop (token_reply ''abc'' 3600000) ''access_token'')"
    "truthy (own_prop (token_reply ''abc'' 3600000) ''expires_at'')"
    by (simp_all add: token_reply_def)
  show ?thesis
    using conjunct2 [OF refresh_stores_token [OF a], rule_format, OF conjI [OF b]] c
    by (simp add: fresh_client_def script_defs)
qed

text \<open>
  The cache is not emptied by a failed refresh: a client holding a stale token still
  holds it after the authenticate request was answered with 500.
\<close>

theorem failed_refresh_keeps_stale_token:
  "\<not> token_usable scripted stale_client \<and>
   fst (getAccessToken scripted stale_client) =
     Inl (VouchsafeApiError 500 (JObj [(''message'', JStr ''down'')]) ''Authentication failed'') \<and>
   token (snd (getAccessToken scripted stale_client)) = JStr ''old'' \<and>
   tokenExpiry (snd (getAccessToken scripted stale_client)) = Some (Date 1000)"
  by (simp add: getAccessToken_def token_usable_def bufferMs_def authBody_def stale_client_def script_defs)

text \<open>
  C5, as the code has it. When a refresh is needed and the authenticate request is
  answered with a status other than 201, \<^verbatim>\<open>getAccessToken\<close> of the fetch client throws
  a \<^verbatim>\<open>VouchsafeApiError\<close> with that status, the body and the message
  \<^verbatim>\<open>Authentication failed\<close>; in the client over the generated API classes the rejection
  of the authenticate method propagates as it is. In both, the token and its expiry are
  what they were before the call: nothing new is cached, and a token that had gone stale
  is still held.
\<close>

theorem failed_refresh_leaves_cache:
  fixes s :: "'w client"
  assumes "token s = JUndefined \<or>
           (\<exists>t. tokenExpiry s = Some (Date t) \<and> t \<le> clock E (world s) + 5 * 60 * 1000)"
  shows "(\<forall>r w'. authenticate E (options s) (world s) = (Inr r, w') \<and> status r \<noteq> 201
            \<longrightarrow> getAccessToken E s =
                  (Inl (VouchsafeApiError (status r) (data r) ''Authentication failed''),
                   s\<lparr>world := w', calls := calls s @ [AuthenticateCall (options s)]\<rparr>)) \<and>
         (\<forall>err w'. authenticationApi_authenticate E (options s) (world s) = (Inl err, w')
            \<longrightarrow> getAccessToken_gen E s =
                  (Inl err, s\<lparr>world := w', calls := calls s @ [AuthenticateCall (options s)]\<rparr>))"
proof -
  have n: "\<not> token_usable E s"
    using assms by (rule refresh_required)
  show ?thesis
    using getAccessToken_failed [OF n] getAccessToken_gen_rejected [OF n] by blast
qed

theorem failed_refresh_leaves_cache_witness:
  "getAccessToken scripted stale_client =
     (Inl (VouchsafeApiError 500 (JObj [(''message'', JStr ''down'')]) ''Authentication failed''),
      stale_client\<lparr>world := quiet 2000,
                   calls := [AuthenticateCall \<lparr>client_id = ''id'', client_secret = ''secret''\<rparr>]\<rparr>) \<and>
   getAccessToken_gen scripted stale_client =
     (Inl (OtherError ''fetch failed''),
      stale_client\<lparr>world := world stale_client,
                   calls := [AuthenticateCall \<lparr>client_id = ''id'', client_secret = ''secret''\<rparr>]\<rparr>)"
proof -
  have a: "token stale_client = JUndefined \<or>
           (\<exists>t. tokenExpiry stale_client = Some (Date t) \<and>
                t \<le> clock scripted (world stale_client) + 5 * 60 * 1000)"
    by (simp add: stale_client_def script_defs)
  have b: "authenticate scripted (options stale_client) (world stale_client) =
             (Inr \<lparr>status = 500, data = JObj [(''message'', JStr ''down'')]\<rparr>, quiet 2000) \<and>
           status \<lparr>status = 500, data = JObj [(''message'', JStr ''down'')]\<rparr> \<noteq> 201"
    by (simp add: stale_client_def script_defs)
  have c: "authenticationApi_authenticate scripted (options stale_client) (world stale_client) =
             (Inl (OtherError ''fetch failed''), world stale_client)"
    by (simp add: stale_client_def script_defs)
  note T = failed_refresh_leaves_cache [OF a]
  show ?thesis
    using conjunct1 [OF T, rule_format, OF b] conjunct2 [OF T, rule_format, OF c]
    by (simp add: stale_client_def script_defs)
qed

text \<open>
  The client over the generated API classes stores what the authenticate method resolved
  to without looking at it: a body without \<^verbatim>\<open>expires_at\<close> leaves a token with an invalid
  expiry on the client, and the token is returned.
\<close>

theorem gen_client_caches_partial_token:
  "getAccessToken_gen scripted partial_client =
     (Inr (JStr ''abc''),
      partial_client\<lparr>world := quiet 0,
                     calls := [AuthenticateCall \<lparr>client_id = ''id'', client_secret = ''secret''\<rparr>],
                     token := JStr ''abc'', tokenExpiry := Some InvalidDate\<rparr>)"
  by (simp add: getAccessToken_gen_def token_usable_def authBody_def partial_client_def script_defs)

text \<open>
  C6, as the code has it. When a refresh is needed and the authenticate request is
  answered with 201 and a body that lacks \<^verbatim>\<open>access_token\<close> or \<^verbatim>\<open>expires_at\<close>, the fetch
  client throws a \<^verbatim>\<open>VouchsafeApiError\<close> and caches nothing. The client over the generated
  API classes makes no such check: it stores both properties as they are and returns the
  token.
\<close>

theorem incomplete_auth_body:
  fixes s :: "'w client"
  assumes "token s = JUndefined \<or>
           (\<exists>t. tokenExpiry s = Some (Date t) \<and> t \<le> clock E (world s) + 5 * 60 * 1000)"
  shows "(\<forall>r w'. authenticate E (options s) (world s) = (Inr r, w') \<and> status r = 201 \<and>
                  \<not> nullish (data r) \<and>
                  (own_prop (data r) ''access_token'' = JUndefined \<or>
                   own_prop (data r) ''expires_at'' = JUndefined)
            \<longrightarrow> getAccessToken E s =
                  (Inl (VouchsafeApiError 201 (data r)
                          ''Authentication response missing token or expiry''),
                   s\<lparr>world := w', calls := calls s @ [AuthenticateCall (options s)]\<rparr>)) \<and>
         (\<forall>body w'. authenticationApi_authenticate E (options s) (world s) = (Inr body, w') \<and>
                     \<not> nullish body
            \<longrightarrow> getAccessToken_gen E s =
                  (Inr (own_prop body ''access_token''),
                   s\<lparr>world := w', calls := calls s @ [AuthenticateCall (options s)],
                     token := own_prop body ''access_token'',
                     tokenExpiry := Some (new_Date E (own_prop body ''expires_at''))\<rparr>))"
proof (intro conjI allI impI)
  have n: "\<not> token_usable E s"
    using assms by (rule refresh_required)
  {
    fix r w'
    assume h: "authenticate E (options s) (world s) = (Inr r, w') \<and> status r = 201 \<and>
               \<not> nullish (data r) \<and>
               (own_prop (data r) ''access_token'' = JUndefined \<or>
                own_prop (data r) ''expires_at'' = JUndefined)"
    then have "\<not> truthy (own_prop (data r) ''access_token'') \<or>
               \<not> truthy (own_prop (data r) ''expires_at'')"
      by auto
    with h show "getAccessToken E s =
                  (Inl (VouchsafeApiError 201 (data r)
                          ''Authentication response missing token or expiry''),
                   s\<lparr>world := w', calls := calls s @ [AuthenticateCall (options s)]\<rparr>)"
      by (intro getAccessToken_missing [OF n]) simp_all
  next
    fix body w'
    assume "authenticationApi_authenticate E (options s) (world s) = (Inr body, w') \<and> \<not> nullish body"
    then show "getAccessToken_gen E s =
                  (Inr (own_prop body ''access_token''),
                   s\<lparr>world := w', calls := calls s @ [AuthenticateCall (options s)],
                     token := own_prop body ''access_token'',
                     tokenExpiry := Some (new_Date E (own_prop body ''expires_at''))\<rparr>)"
      by (intro getAccessToken_gen_stored [OF n]) simp_all
  }
qed

theorem incomplete_auth_body_witness:
  "getAccessToken scripted no_expiry_client =
     (Inl (VouchsafeApiError 201 (JObj [(''access_token'', JStr ''abc'')])
             ''Authentication response missing token or expiry''),
      no_expiry_client\<lparr>world := quiet 0,
                       calls := [AuthenticateCall \<lparr>client_id = ''id'', client_secret = ''secret''\<rparr>]\<rparr>) \<and>
   getAccessToken_gen scripted gen_fresh_client =
     (Inr (JStr ''abc''),
      gen_fresh_client\<lparr>world := quiet 0,
                       calls := [AuthenticateCall \<lparr>client_id = ''id'', client_secret = ''secret''\<rparr>],
                       token := JStr ''abc'', tokenExpiry := Some (Date 3600000)\<rparr>)"
proof -
  have a: "token no_expiry_client = JUndefined \<or>
           (\<exists>t. tokenExpiry no_expiry_client = Some (Date t) \<and>
                t \<le> clock scripted (world no_expiry_client) + 5 * 60 * 1000)"
    by (simp add: no_expiry_client_def script_defs)
  have b: "authenticate scripted (options no_expiry_client) (world no_expiry_client) =
             (Inr \<lparr>status = 201, data = JObj [(''access_token'', JStr ''abc'')]\<rparr>, quiet 0) \<and>
           status \<lparr>status = 201, data = JObj [(''access_token'', JStr ''abc'')]\<rparr> = 201 \<and>
           \<not> nullish (data \<lparr>status = 201, data = JObj [(''access_token'', JStr ''abc'')]\<rparr>) \<and>
           (own_prop (data \<lparr>status = 201, data = JObj [(''access_token'', JStr ''abc'')]\<rparr>) ''access_token'' = JUndefined \<or>
            own_prop (data \<lparr>status = 201, data = JObj [(''access_token'', JStr ''abc'')]\<rparr>) ''expires_at'' = JUndefined)"
    by (simp add: no_expiry_client_def script_defs)
  have c: "token gen_fresh_client = JUndefined \<or>
           (\<exists>t. tokenExpiry gen_fresh_client = Some (Date t) \<and>
                t \<le> clock scripted (world gen_fresh_client) + 5 * 60 * 1000)"
    by (simp add: gen_fresh_client_def script_defs)
  have d: "authenticationApi_authenticate scripted (options gen_fresh_client) (world gen_fresh_client) =
             (Inr (token_reply ''abc'' 3600000), quiet 0) \<and>
           \<not> nullish (token_reply ''abc'' 3600000)"
    by (simp add: gen_fresh_client_def script_defs)
  show ?thesis
    using conjunct1 [OF incomplete_auth_body [OF a], rule_format, OF b]
      conjunct2 [OF incomplete_auth_body [OF c], rule_format, OF d]
    by (simp add: no_expiry_client_def gen_fresh_client_def script_defs)
qed

subsection \<open>Errors and the retry\<close>

lemma authHeaders_Inr:
  "authHeaders E s = (Inr opts, s1) \<Longrightarrow>
     \<exists>tok. getAccessToken E s = (Inr tok, s1) \<and> opts = \<lparr>Authorization = ''Bearer '' @ ToString tok\<rparr>"
  by (auto simp: authHeaders_def split: prod.splits sum.splits)


lemma attempt_auth_failed:
  "getAccessToken E s = (Inl e, s1) \<Longrightarrow> attempt E fn s = (Inl e, s1)"
  by (simp add: attempt_def authHeaders_def)


lemma withErrorHandling_no_retry:
  "attempt E fn s = (Inl e, s1) \<Longrightarrow> \<not> is_401 e \<Longrightarrow> withErrorHandling E fn s = (Inl e, s1)"
  by (simp add: withErrorHandling_def)






text \<open>
  C10. When a refresh is needed and the authenticate request is answered with 201 and a
  body whose \<^verbatim>\<open>access_token\<close> or \<^verbatim>\<open>expires_at\<close> is falsy (the empty string, for one),
  \<^verbatim>\<open>getAccessToken\<close> throws an error whose \<^verbatim>\<open>statusCode\<close> is 201. Since 201 is not
  401, \<open>withErrorHandling\<close> hands that error to the caller as it is: the wrapped call is
  never made and nothing is retried.
\<close>

theorem falsy_token_field_gives_201_error:
  fixes s :: "'w client"
  assumes "token s = JUndefined \<or>
           (\<exists>t. tokenExpiry s = Some (Date t) \<and> t \<le> clock E (world s) + 5 * 60 * 1000)"
    and "authenticate E (options s) (world s) = (Inr r, w')"
    and "status r = 201"
    and "\<not> nullish (data r)"
    and "\<not> truthy (own_prop (data r) ''access_token'') \<or> \<not> truthy (own_prop (data r) ''expires_at'')"
  shows "getAccessToken E s =
           (Inl (VouchsafeApiError 201 (data r) ''Authentication response missing token or expiry''),
            s\<lparr>world := w', calls := calls s @ [AuthenticateCall (options s)]\<rparr>) \<and>
         statusCode (VouchsafeApiError 201 (data r) ''Authentication response missing token or expiry'') = 201 \<and>
         withErrorHandling E fn s =
           (Inl (VouchsafeApiError 201 (data r) ''Authentication response missing token or expiry''),
            s\<lparr>world := w', calls := calls s @ [AuthenticateCall (options s)]\<rparr>)"
proof -
  let ?e = "VouchsafeApiError 201 (data r) ''Authentication response missing token or expiry''"
  let ?s' = "s\<lparr>world := w', calls := calls s @ [AuthenticateCall (options s)]\<rparr>"
  have n: "\<not> token_usable E s"
    using assms(1) by (rule refresh_required)
  have g: "getAccessToken E s = (Inl ?e, ?s')"
    using n assms(2-) by (rule getAccessToken_missing)
  then have "attempt E fn s = (Inl ?e, ?s')"
    by (rule attempt_auth_failed)
  then have "withErrorHandling E fn s = (Inl ?e, ?s')"
    by (rule withErrorHandling_no_retry) simp
  with g show ?thesis by simp
qed

theorem falsy_token_field_gives_201_error_witness:
  "getVerification scripted (JStr ''X'') empty_token_client =
     (Inl (VouchsafeApiError 201 (JObj [(''access_token'', JStr ''''), (''expires_at'', JNum 3600000)])
             ''Authentication response missing token or expiry''),
      empty_token_client
        \<lparr>world := (quiet 0)\<lparr>replies := [Inr \<lparr>status = 200, data = JStr ''ok''\<rparr>]\<rparr>,
         calls := [AuthenticateCall \<lparr>client_id = ''id'', client_secret = ''secret''\<rparr>]\<rparr>)"
proof -
  let ?r = "\<lparr>status = 201, data = JObj [(''access_token'', JStr ''''), (''expires_at'', JNum 3600000)]\<rparr>"
  have a: "token empty_token_client = JUndefined \<or>
           (\<exists>t. tokenExpiry empty_token_client = Some (Date t) \<and>
                t \<le> clock scripted (world empty_token_client) + 5 * 60 * 1000)"
    by (simp add: empty_token_client_def script_defs)
  have b: "authenticate scripted (options empty_token_client) (world empty_token_client) =
             (Inr ?r, (quiet 0)\<lparr>replies := [Inr \<lparr>status = 200, data = JStr ''ok''\<rparr>]\<rparr>)"
    by (simp add: empty_token_client_def script_defs)
  have c: "status ?r = 201" "\<not> nullish (data ?r)"
    "\<not> truthy (own_prop (data ?r) ''access_token'') \<or> \<not> truthy (own_prop (data ?r) ''expires_at'')"
    by simp_all
  show ?thesis
    using falsy_token_field_gives_201_error [OF a b c, of "\<lambda>opts. endpoint scripted (GetVerification (JStr ''X'')) opts"]
    by (simp add: getVerification_def empty_token_client_def script_defs)
qed












lemmas gen_defs = withErrorHandling_gen_def getAccessToken_gen_def token_usable_def bufferMs_def
  authBody_def opt_prop_def nullish_coalesce_def


subsection \<open>The token in the header\<close>

lemma getAccessToken_Inr_cases:
  assumes "getAccessToken E s = (Inr tok, s')"
  shows "tok = token s' \<and> truthy tok \<and>
         ((token_usable E s \<and> s' = s) \<or>
          (\<not> token_usable E s \<and>
           (\<exists>r w'. authenticate E (options s) (world s) = (Inr r, w') \<and> status r = 201 \<and>
              s' = s\<lparr>world := w', calls := calls s @ [AuthenticateCall (options s)],
                     token := own_prop (data r) ''access_token'',
                     tokenExpiry := Some (new_Date E (own_prop (data r) ''expires_at''))\<rparr>)))"
proof (cases "token_usable E s")
  case True
  then show ?thesis
    using assms by (auto simp: getAccessToken_usable token_usable_def)
next
  case False
  obtain res w' where au: "authenticate E (options s) (world s) = (res, w')"
    by (cases "authenticate E (options s) (world s)")
  show ?thesis
  proof (cases res)
    case (Inl e)
    then show ?thesis
      using assms False au by (simp add: getAccessToken_def authBody_options)
  next
    case (Inr r)
    then show ?thesis
      using assms False au
      by (simp add: getAccessToken_def authBody_options Let_def split: if_splits) auto
  qed
qed

text \<open>
  A token that has just been acquired goes into the header whatever its expiry: here the
  reply gives a token that expires at the very moment of the call, so the test
  \<open>now < expiry - 5 * 60 * 1000\<close> fails for it, and the header is built with it all the same.
\<close>

theorem fresh_token_used_unchecked:
  "fst (authHeaders scripted short_lived_client) = Inr \<lparr>Authorization = ''Bearer abc''\<rparr> \<and>
   token (snd (authHeaders scripted short_lived_client)) = JStr ''abc'' \<and>
   tokenExpiry (snd (authHeaders scripted short_lived_client)) = Some (Date 1000000) \<and>
   clock scripted (world (snd (authHeaders scripted short_lived_client))) = 1000000 \<and>
   \<not> (clock scripted (world (snd (authHeaders scripted short_lived_client))) < 1000000 - 5 * 60 * 1000)"
  by (simp add: authHeaders_def getAccessToken_def token_usable_def authBody_def
      short_lived_client_def script_defs)

text \<open>
  C8, as the code has it. The client holds one token and one expiry. A header built by
  \<^verbatim>\<open>authHeaders\<close> carries the token the client holds at that moment, and one of two
  things has happened. Either the token was already cached and the current time was
  strictly less than its expiry minus \<open>5 * 60 * 1000\<close> milliseconds, and the client is
  unchanged; or the cached token failed that test, an authenticate request was sent
  before the header was built, and the header carries the token of its 201 reply, whose
  expiry is stored as it came.
\<close>

theorem header_token_cached_or_fresh:
  fixes s :: "'w client"
  assumes "authHeaders E s = (Inr hdr, s')"
  shows "Authorization hdr = ''Bearer '' @ ToString (token s') \<and> truthy (token s') \<and>
         ((truthy (token s) \<and>
           (\<exists>t. tokenExpiry s = Some (Date t) \<and> clock E (world s) < t - 5 * 60 * 1000) \<and>
           s' = s) \<or>
          (\<not> (truthy (token s) \<and>
              (\<exists>t. tokenExpiry s = Some (Date t) \<and> clock E (world s) < t - 5 * 60 * 1000)) \<and>
           (\<exists>r w'. authenticate E (options s) (world s) = (Inr r, w') \<and> status r = 201 \<and>
              s' = s\<lparr>world := w', calls := calls s @ [AuthenticateCall (options s)],
                     token := own_prop (data r) ''access_token'',
                     tokenExpiry := Some (new_Date E (own_prop (data r) ''expires_at''))\<rparr>)))"
proof -
  obtain tok where g: "getAccessToken E s = (Inr tok, s')"
    and h: "hdr = \<lparr>Authorization = ''Bearer '' @ ToString tok\<rparr>"
    using authHeaders_Inr [OF assms] by blast
  note c = getAccessToken_Inr_cases [OF g]
  from c have t: "tok = token s'" and 2: "truthy tok"
    by blast+
  have 1: "Authorization hdr = ''Bearer '' @ ToString (token s')"
    using t h by simp
  from c have "(token_usable E s \<and> s' = s) \<or>
          (\<not> token_usable E s \<and>
           (\<exists>r w'. authenticate E (options s) (world s) = (Inr r, w') \<and> status r = 201 \<and>
              s' = s\<lparr>world := w', calls := calls s @ [AuthenticateCall (options s)],
                     token := own_prop (data r) ''access_token'',
                     tokenExpiry := Some (new_Date E (own_prop (data r) ''expires_at''))\<rparr>))"
    by simp
  then have 3: "(truthy (token s) \<and>
           (\<exists>t. tokenExpiry s = Some (Date t) \<and> clock E (world s) < t - 5 * 60 * 1000) \<and>
           s' = s) \<or>
          (\<not> (truthy (token s) \<and>
              (\<exists>t. tokenExpiry s = Some (Date t) \<and> clock E (world s) < t - 5 * 60 * 1000)) \<and>
           (\<exists>r w'. authenticate E (options s) (world s) = (Inr r, w') \<and> status r = 201 \<and>
              s' = s\<lparr>world := w', calls := calls s @ [AuthenticateCall (options s)],
                     token := own_prop (data r) ''access_token'',
                     tokenExpiry := Some (new_Date E (own_prop (data r) ''expires_at''))\<rparr>))"
    unfolding token_usable_iff by simp
  from 1 2 t 3 show ?thesis by simp
qed

theorem header_token_cached_or_fresh_witness:
  "Authorization \<lparr>Authorization = ''Bearer abc''\<rparr> = ''Bearer '' @ ToString (token cached_client) \<and>
   truthy (token cached_client) \<and>
   clock scripted (world cached_client) < 3600000 - 5 * 60 * 1000"
proof -
  have a: "authHeaders scripted cached_client = (Inr \<lparr>Authorization = ''Bearer abc''\<rparr>, cached_client)"
    by (simp add: authHeaders_def getAccessToken_def token_usable_def bufferMs_def
        cached_client_def script_defs)
  have b: "clock scripted (world cached_client) < 3600000 - 5 * 60 * 1000"
    by (simp add: cached_client_def script_defs)
  show ?thesis
    using header_token_cached_or_fresh [OF a] b by simp
qed

subsection \<open>The generated API classes: body of an error, double wrapping\<close>



text \<open>
  C2. \<^verbatim>\<open>listFlows\<close> of the client over the generated API classes wraps its call in
  \<open>withErrorHandling\<close> twice. Against a server that answers 401, 401 and then 200, it
  invokes the call three times and refreshes the token twice before it returns the
  payload; \<open>withErrorHandling\<close> applied once to the same call stops after the second 401
  and gives that error to the caller.
\<close>

theorem listFlows_gen_retries_twice:
  "listFlows_gen scripted flaky_flows_client =
     (Inr (JArr []),
      flaky_flows_client
        \<lparr>world := quiet 0,
         calls := [EndpointCall \<lparr>Authorization = ''Bearer abc''\<rparr>,
                   AuthenticateCall \<lparr>client_id = ''id'', client_secret = ''secret''\<rparr>,
                   EndpointCall \<lparr>Authorization = ''Bearer def''\<rparr>,
                   AuthenticateCall \<lparr>client_id = ''id'', client_secret = ''secret''\<rparr>,
                   EndpointCall \<lparr>Authorization = ''Bearer ghi''\<rparr>],
         token := JStr ''ghi'', tokenExpiry := Some (Date 7200000)\<rparr>) \<and>
   withErrorHandling_gen scripted (api scripted ListFlows) flaky_flows_client =
     (Inl (ResponseError \<lparr>resp_status = 401, statusText = ''Unauthorized'', json_body = None\<rparr>),
      flaky_flows_client
        \<lparr>world := (quiet 0)\<lparr>api_auth_replies := [Inr (token_reply ''ghi'' 7200000)],
                            api_replies := [Inr (JArr [])]\<rparr>,
         calls := [EndpointCall \<lparr>Authorization = ''Bearer abc''\<rparr>,
                   AuthenticateCall \<lparr>client_id = ''id'', client_secret = ''secret''\<rparr>,
                   EndpointCall \<lparr>Authorization = ''Bearer def''\<rparr>],
         token := JStr ''def'', tokenExpiry := Some (Date 7200000)\<rparr>)"
  by (simp add: listFlows_gen_def gen_defs flaky_flows_client_def with_token_def script_defs)

end
